theory Spec2Isabelle
  imports Complex_Main "HOL-Library.AList" "HOL-Library.Sublist"
begin

section \<open>Data model\<close>

text \<open>
  The records follow the JSON shapes that \<^verbatim>\<open>src/server.js\<close> reads and builds.
  A property that may be missing (\<^verbatim>\<open>undefined\<close>) is an \<open>option\<close>. Strings are lists of
  characters; numbers read from JSON are rationals (every finite double is one).
\<close>

text \<open>One item of a harvest response (lines 103-110).\<close>

record raw =
  chainId :: string
  tokenAddress :: string
  icon :: "string option"
  header :: "string option"
  description :: "string option"

text \<open>
  One pair of an enrichment response (lines 121-122, 131-142): \<open>liquidity_usd\<close> is the value
  of \<^verbatim>\<open>p.liquidity?.usd\<close>, \<open>info_imageUrl\<close> of \<^verbatim>\<open>p.info?.imageUrl\<close> and \<open>info_header\<close> of
  \<^verbatim>\<open>p.info?.header\<close>.
\<close>

record pair =
  baseToken_name :: string
  baseToken_symbol :: string
  baseToken_address :: string
  url :: string
  liquidity_usd :: "rat option"
  info_imageUrl :: "string option"
  info_header :: "string option"

text \<open>The object literal stored in \<^verbatim>\<open>uniqueTokensMap\<close> (lines 135-143).\<close>

record token =
  name :: string
  symbol :: string
  address :: string
  url :: string
  icon :: "string option"
  header :: "string option"
  description :: "string option"

section \<open>Deduplication (lines 130-147)\<close>

text \<open>
  \<^verbatim>\<open>a > b\<close> on two values that are numbers or \<^verbatim>\<open>undefined\<close>: \<^verbatim>\<open>undefined\<close> converts to
  NaN, and every comparison with NaN is false.
\<close>

fun js_gt :: "rat option \<Rightarrow> rat option \<Rightarrow> bool" where
  "js_gt (Some a) (Some b) = (b < a)"
| "js_gt _ _ = False"

text \<open>
  \<^verbatim>\<open>uniqueTokensMap.get(addr).liquidity\<close>: the stored object is the literal of lines
  135-143, whose properties are name, symbol, address, url, icon, header and description.
  It has no property \<^verbatim>\<open>liquidity\<close>, so the read yields \<^verbatim>\<open>undefined\<close> for every stored
  value.
\<close>

definition stored_liquidity :: "token \<Rightarrow> rat option" where
  "stored_liquidity t = None"

text \<open>The object built at lines 134-143 for the pair \<open>p\<close>.\<close>

definition canonical :: "raw list \<Rightarrow> pair \<Rightarrow> token" where
  "canonical allRaw p =
     (let addr = baseToken_address p;
          original = find (\<lambda>r. tokenAddress r = addr) allRaw
      in \<lparr> name = baseToken_name p,
           symbol = baseToken_symbol p,
           address = addr,
           url = pair.url p,
           icon = (case original of Some r \<Rightarrow> raw.icon r | None \<Rightarrow> info_imageUrl p),
           header = (case original of Some r \<Rightarrow> raw.header r | None \<Rightarrow> info_header p),
           description = (case original of Some r \<Rightarrow> raw.description r
                          | None \<Rightarrow> Some ''No description.'') \<rparr>)"

text \<open>
  A JavaScript \<^verbatim>\<open>Map\<close> keeps its keys in insertion order, and \<^verbatim>\<open>set\<close> on a key that is
  present replaces the value where it stands: an association list with \<open>AList.update\<close>.
  The body of the \<^verbatim>\<open>forEach\<close> callback (lines 131-145); the second disjunct is read only
  when the key is present.
\<close>

definition dedup_step :: "raw list \<Rightarrow> (string \<times> token) list \<Rightarrow> pair \<Rightarrow> (string \<times> token) list" where
  "dedup_step allRaw m p =
     (let addr = baseToken_address p in
      if (case map_of m addr of
            None \<Rightarrow> True
          | Some stored \<Rightarrow> js_gt (liquidity_usd p) (stored_liquidity stored))
      then AList.update addr (canonical allRaw p) m
      else m)"

definition uniqueTokensMap :: "raw list \<Rightarrow> pair list \<Rightarrow> (string \<times> token) list" where
  "uniqueTokensMap allRaw resolvedTokens = foldl (dedup_step allRaw) [] resolvedTokens"

text \<open>\<^verbatim>\<open>Array.from(uniqueTokensMap.values())\<close> (line 147).\<close>

definition finalTokenList :: "raw list \<Rightarrow> pair list \<Rightarrow> token list" where
  "finalTokenList allRaw resolvedTokens = map snd (uniqueTokensMap allRaw resolvedTokens)"

text \<open>Two pairs of one token, the second with the greater liquidity.\<close>

definition pair_low :: pair where
  "pair_low = \<lparr> baseToken_name = ''LOW POOL'', baseToken_symbol = ''LOW'',
                baseToken_address = ''Addr1'', url = ''https://dex/low'',
                liquidity_usd = Some 10, info_imageUrl = None, info_header = None \<rparr>"

definition pair_high :: pair where
  "pair_high = \<lparr> baseToken_name = ''HIGH POOL'', baseToken_symbol = ''HIGH'',
                 baseToken_address = ''Addr1'', url = ''https://dex/high'',
                 liquidity_usd = Some 100, info_imageUrl = None, info_header = None \<rparr>"

text \<open>A pair of another token, without liquidity.\<close>

definition pair_other :: pair where
  "pair_other = \<lparr> baseToken_name = ''OTHER'', baseToken_symbol = ''OTH'',
                  baseToken_address = ''Addr3'', url = ''https://dex/other'',
                  liquidity_usd = None, info_imageUrl = None, info_header = None \<rparr>"

section \<open>Pattern engine (lines 28-62)\<close>

definition stopWords :: "string list" where
  "stopWords =
     [''THE'', ''AND'', ''FOR'', ''SOL'', ''TOKEN'', ''COIN'', ''MEME'', ''PRO'', ''MAX'',
      ''BULL'', ''PUMP'', ''MOON'', ''DEV'', ''CTO'', ''COMMUNITY'', ''OFFICIAL'',
      ''REAL'', ''NEW'', ''FINANCE'', ''SWAP'', ''PROTOCOL'', ''BETA'', ''ALPHA'', ''BASE'',
      ''SOLANA'', ''COINS'', ''GROUP'', ''TEAM'', ''LIVE'', ''VIDEO'', ''GAME'', ''AI'', ''CHAT'']"

definition lower_letters :: string where
  "lower_letters = ''abcdefghijklmnopqrstuvwxyz''"

definition upper_letters :: string where
  "upper_letters = ''ABCDEFGHIJKLMNOPQRSTUVWXYZ''"

text \<open>
  \<^verbatim>\<open>toUpperCase\<close> on the characters of the model: a lower-case Latin letter becomes its
  capital, every other character stays. (The case mapping of characters outside ASCII is
  not modelled; the theorems below hold for any case mapping, since they never unfold it.)
\<close>

definition toUpperCase :: "string \<Rightarrow> string" where
  "toUpperCase s =
     map (\<lambda>c. case map_of (zip lower_letters upper_letters) c of Some u \<Rightarrow> u | None \<Rightarrow> c) s"

text \<open>\<^verbatim>\<open>s.split('($')[0]\<close>: the part of \<open>s\<close> before the first \<^verbatim>\<open>($\<close>, all of \<open>s\<close> without one.\<close>

fun before_ticker :: "string \<Rightarrow> string" where
  "before_ticker [] = []"
| "before_ticker (c # cs) = (if prefix ''($'' (c # cs) then [] else c # before_ticker cs)"

text \<open>\<^verbatim>\<open>s.replace(/[^A-Z ]/g, " ")\<close>.\<close>

definition blank_non_letters :: "string \<Rightarrow> string" where
  "blank_non_letters s =
     map (\<lambda>c. if c \<in> set upper_letters \<or> c = CHR '' '' then c else CHR '' '') s"

definition cleanName :: "string \<Rightarrow> string" where
  "cleanName n = blank_non_letters (before_ticker (toUpperCase n))"

text \<open>
  \<^verbatim>\<open>s.split(/\s+/)\<close> on a string of capitals and spaces, where the only white space is the
  space: the pieces between the maximal runs of spaces, with an empty piece before a
  leading run and after a trailing one, and one empty piece for the empty string.
\<close>

fun split_spaces :: "string \<Rightarrow> string list" where
  "split_spaces [] = [[]]"
| "split_spaces (c # cs) =
     (if c = CHR '' ''
      then (if cs \<noteq> [] \<and> hd cs = CHR '' '' then split_spaces cs else [] # split_spaces cs)
      else (case split_spaces cs of
              w # ws \<Rightarrow> (c # w) # ws
            | [] \<Rightarrow> [[c]]))"

text \<open>The test of line 43.\<close>

definition qualifies :: "string \<Rightarrow> bool" where
  "qualifies w \<longleftrightarrow> length w > 2 \<and> length w < 15 \<and> w \<notin> set stopWords"

text \<open>
  \<^verbatim>\<open>wordCounts\<close> is a plain object whose keys are words of 3 to 14 capitals; such keys
  are no array indices and no property of \<^verbatim>\<open>Object.prototype\<close>, so \<^verbatim>\<open>Object.entries\<close>
  lists them in insertion order: an association list, a new word appended at the end.
  Line 44: \<^verbatim>\<open>wordCounts[w] = (wordCounts[w] || 0) + 1\<close>.
\<close>

fun bump :: "(string \<times> nat) list \<Rightarrow> string \<Rightarrow> (string \<times> nat) list" where
  "bump [] w = [(w, 1)]"
| "bump ((k, c) # m) w = (if k = w then (k, c + 1) # m else (k, c) # bump m w)"

text \<open>The inner callback (lines 42-46) and the outer one (lines 38-47).\<close>

definition count_word :: "(string \<times> nat) list \<Rightarrow> string \<Rightarrow> (string \<times> nat) list" where
  "count_word wc w = (if qualifies w then bump wc w else wc)"

definition count_token :: "(string \<times> nat) list \<Rightarrow> token \<Rightarrow> (string \<times> nat) list" where
  "count_token wc t = foldl count_word wc (split_spaces (cleanName (name t)))"

definition wordCounts :: "token list \<Rightarrow> (string \<times> nat) list" where
  "wordCounts tokens = foldl count_token [] tokens"

text \<open>
  Line 49: \<^verbatim>\<open>Object.entries(wordCounts).sort((a, b) => b[1] - a[1])\<close>. The sort of an
  array is stable, and the comparator puts the greater count first: a stable sort by the
  negated count.
\<close>

definition sortedWords :: "token list \<Rightarrow> (string \<times> nat) list" where
  "sortedWords tokens = sort_key (\<lambda>e. - int (snd e)) (wordCounts tokens)"

text \<open>\<^verbatim>\<open>s.includes(w)\<close>: \<open>w\<close> occurs in \<open>s\<close> as a contiguous piece.\<close>

definition includes_str :: "string \<Rightarrow> string \<Rightarrow> bool" where
  "includes_str s w = sublist w s"

record pattern =
  meta :: string
  count :: nat
  filtered :: "token list"

definition findMetaPattern :: "token list \<Rightarrow> pattern" where
  "findMetaPattern tokens =
     (case sortedWords tokens of
        [] \<Rightarrow> \<lparr> meta = ''None'', count = 0, filtered = take 20 tokens \<rparr>
      | (topMetaWord, cnt) # _ \<Rightarrow>
          \<lparr> meta = topMetaWord, count = cnt,
            filtered = filter (\<lambda>t. includes_str (toUpperCase (name t)) topMetaWord \<or>
                                  (case description t of
                                     None \<Rightarrow> False
                                   | Some d \<Rightarrow> d \<noteq> [] \<and> includes_str (toUpperCase d) topMetaWord))
                              tokens \<rparr>)"

text \<open>The words of one name that are counted, and those of all names, in the order of line 38.\<close>

definition name_words :: "token \<Rightarrow> string list" where
  "name_words t = filter qualifies (split_spaces (cleanName (name t)))"

definition all_words :: "token list \<Rightarrow> string list" where
  "all_words tokens = concat (map name_words tokens)"

text \<open>A canonical record with the given name and nothing else of interest.\<close>

definition named :: "string \<Rightarrow> string \<Rightarrow> token" where
  "named a n = \<lparr> name = n, symbol = ''SYM'', address = a, url = ''https://dex/x'',
                 icon = None, header = None, description = None \<rparr>"

text \<open>
  The elements of a list in the order of their first occurrence, each once: the keys of
  \<^verbatim>\<open>wordCounts\<close>, and \<^verbatim>\<open>[...new Set(xs)]\<close> (line 112).
\<close>

definition insertion_order :: "'a list \<Rightarrow> 'a list" where
  "insertion_order xs = foldl (\<lambda>acc x. if x \<in> set acc then acc else acc @ [x]) [] xs"

text \<open>A word of the counted sequence with the greatest count, and the first such word.\<close>

definition top_count :: "string list \<Rightarrow> string \<Rightarrow> bool" where
  "top_count ws w \<longleftrightarrow> (\<forall>v \<in> set ws. count_list ws v \<le> count_list ws w)"

definition first_top :: "string list \<Rightarrow> string option" where
  "first_top ws = find (top_count ws) ws"

text \<open>
  How often a word is counted over all names, and (in the words of the specification) the
  number of records whose counted words contain it.
\<close>

definition occurrences :: "string \<Rightarrow> token list \<Rightarrow> nat" where
  "occurrences w tokens = sum_list (map (\<lambda>t. count_list (name_words t) w) tokens)"

definition records_containing :: "string \<Rightarrow> token list \<Rightarrow> nat" where
  "records_containing w tokens = length (filter (\<lambda>t. w \<in> set (name_words t)) tokens)"

text \<open>Record lists used as concrete inputs.\<close>

definition ex_doge :: "token list" where
  "ex_doge = [named ''A1'' ''DOGE KING'', named ''A2'' ''DOGE QUEEN'', named ''A3'' ''DOGE LORD'']"

definition ex_twice :: "token list" where
  "ex_twice = [named ''A1'' ''Doge Doge'']"

definition ex_stop :: "token list" where
  "ex_stop = [named ''A1'' ''Solana'', named ''A2'' ''Moon ($MOON)'']"

definition ex_tie :: "token list" where
  "ex_tie = [named ''A1'' ''King Doge'', named ''A2'' ''Doge King'']"

section \<open>Settled promises and the external services\<close>

text \<open>
  A settled promise: rejected with an Error object (its message), or fulfilled with a
  value.
\<close>

datatype 'a promise = Rejected string | Fulfilled 'a

text \<open>
  What the handler reads of a chat completion (line 92,
  \<^verbatim>\<open>completion.choices[0]?.message?.content\<close>): \<open>choices\<close> is \<open>None\<close> when the response has
  no such array, and then reading its element 0 throws a TypeError inside the \<^verbatim>\<open>try\<close>.
\<close>

datatype message = Message (content: "string option")

datatype choice = Choice (message: "message option")

datatype completion = Completion (choices: "choice list option")

text \<open>Exceptions the code can raise by itself.\<close>

datatype js_error = RangeError | TypeError

section \<open>Utilities (lines 21-25)\<close>

text \<open>
  \<^verbatim>\<open>Array.from({ length: Math.ceil(arr.length / size) }, (v, i) => arr.slice(i * size, i * size + size))\<close>.
  For size 0 the length is NaN for an empty array (no chunk) and Infinity otherwise, which
  \<^verbatim>\<open>Array.from\<close> refuses with a RangeError.
\<close>

definition chunkArray :: "'a list \<Rightarrow> nat \<Rightarrow> js_error + 'a list list" where
  "chunkArray arr chunk_size =
     (if chunk_size = 0 then (if arr = [] then Inr [] else Inl RangeError)
      else Inr (map (\<lambda>i. take chunk_size (drop (i * chunk_size) arr))
                  [0..<(length arr + chunk_size - 1) div chunk_size]))"

text \<open>\<^verbatim>\<open>xs.join(sep)\<close>.\<close>

fun join :: "string \<Rightarrow> string list \<Rightarrow> string" where
  "join sep [] = []"
| "join sep [x] = x"
| "join sep (x # y # ys) = x @ sep @ join sep (y # ys)"

text \<open>The decimal digits of a count, as a template literal prints it.\<close>

fun decimal :: "nat \<Rightarrow> string" where
  "decimal n = (if n < 10 then [''0123456789'' ! n] else decimal (n div 10) @ [''0123456789'' ! (n mod 10)])"

section \<open>AI engine (lines 65-97)\<close>

text \<open>The warning sign of the two fixed messages, as the bytes of the source file.\<close>

definition warning_sign :: string where
  "warning_sign = [CHR 0xE2, CHR 0x9A, CHR 0xA0, CHR 0xEF, CHR 0xB8, CHR 0x8F]"

definition scattered_message :: string where
  "scattered_message = warning_sign @ '' Market is scattered. No strong narrative found.''"

definition ai_error_message :: string where
  "ai_error_message = warning_sign @ '' AI Error. Check API Key.''"

definition no_analysis_message :: string where
  "no_analysis_message = ''No analysis generated.''"

text \<open>
  One line of the prompt (lines 68-70). \<open>take 80\<close> cuts after 80 characters of the model,
  which is \<^verbatim>\<open>slice(0, 80)\<close> for descriptions in ASCII; no theorem below unfolds the prompt.
\<close>

definition token_line :: "token \<Rightarrow> string" where
  "token_line t =
     ''- '' @ name t @ '' ($'' @ symbol t @ ''): '' @
     (case description t of
        Some d \<Rightarrow> if d \<noteq> [] then take 80 d else ''No Bio''
      | None \<Rightarrow> ''No Bio'')"

definition tokenText :: "token list \<Rightarrow> string" where
  "tokenText tokens = join ''\<newline>'' (map token_line (take 8 tokens))"

definition prompt :: "string \<Rightarrow> nat \<Rightarrow> token list \<Rightarrow> string" where
  \<open>prompt metaWord cnt tokens =
     ''\<newline>    SCAN RESULT: Analyzed 200+ active Solana tokens.\<newline>    DOMINANT META: "'' @
     metaWord @ ''" (Found '' @ decimal cnt @
     '' projects matching this theme).\<newline>    \<newline>    Top Projects in this Meta:\<newline>    '' @
     tokenText tokens @
     ''\<newline>\<newline>    TASK:\<newline>    1. Why is the "'' @ metaWord @
     ''" meta trending right now?\<newline>    2. Which of these looks like the "Market Leader" vs "Clone"?\<newline>    3. Final Verdict: Is this trend early or saturated?\<newline>    \<newline>    Be brutally honest.\<newline>    ''\<close>

text \<open>
  The text returned for a settled call (lines 87-96): a rejection and a response without
  \<open>choices\<close> end in the \<^verbatim>\<open>catch\<close>; an absent or empty content gives the fallback of
  line 92.
\<close>

definition verdict :: "completion promise \<Rightarrow> string" where
  "verdict r =
     (case r of
        Rejected e \<Rightarrow> ai_error_message
      | Fulfilled c \<Rightarrow>
          (case choices c of
             None \<Rightarrow> ai_error_message
           | Some [] \<Rightarrow> no_analysis_message
           | Some (ch # _) \<Rightarrow>
               (case message ch of
                  None \<Rightarrow> no_analysis_message
                | Some m \<Rightarrow>
                    (case content m of
                       None \<Rightarrow> no_analysis_message
                     | Some s \<Rightarrow> if s \<noteq> [] then s else no_analysis_message))))"

text \<open>
  The result, and the prompts sent to the collaborator in this call (none or one).
\<close>

definition getAiAnalysis ::
  "(string \<Rightarrow> completion promise) \<Rightarrow> string \<Rightarrow> nat \<Rightarrow> token list \<Rightarrow> string \<times> string list" where
  "getAiAnalysis groq metaWord cnt tokens =
     (if cnt < 3 then (scattered_message, [])
      else (let p = prompt metaWord cnt tokens in (verdict (groq p), [p])))"

section \<open>The hunting endpoint (lines 100-168)\<close>

text \<open>
  What the request meets outside the process: the three settled harvest calls, the
  enrichment service as a function of the identifiers put into the URL (the value is
  \<^verbatim>\<open>res.data?.pairs\<close>, \<open>None\<close> when absent or null), and the text-generation collaborator as
  a function of the prompt. Every call is taken to settle.
\<close>

record world =
  profilesRes :: "raw list promise"
  boostsRes :: "raw list promise"
  topRes :: "raw list promise"
  tokens_api :: "string \<Rightarrow> pair list option promise"
  groq_api :: "string \<Rightarrow> completion promise"

datatype envelope =
    Success (total_scanned: nat) (meta_keyword: string) (meta_count: nat)
            (ai_analysis: string) (filtered_list: "token list")
  | Failure (error: string)

record response =
  status :: nat
  body :: envelope

text \<open>Calls issued after the harvest: enrichment lookups and collaborator calls.\<close>

datatype call = Tokens_call string | Groq_call string

text \<open>Lines 109-110 and 112.\<close>

definition allRaw_of :: "raw list \<Rightarrow> raw list \<Rightarrow> raw list \<Rightarrow> raw list" where
  "allRaw_of a b c = filter (\<lambda>t. chainId t = ''solana'') (a @ b @ c)"

definition uniqueAddresses :: "raw list \<Rightarrow> string list" where
  "uniqueAddresses allRaw = insertion_order (map tokenAddress allRaw)"

text \<open>
  One batch (lines 118-124): a rejected lookup is caught and gives the empty list, as does
  a response without pairs. Lines 126-127 append the batches in the order of the chunks.
\<close>

definition fetch_batch :: "(string \<Rightarrow> pair list option promise) \<Rightarrow> string list \<Rightarrow> pair list" where
  "fetch_batch lookup chunk =
     (case lookup (join '','' chunk) of
        Rejected e \<Rightarrow> []
      | Fulfilled None \<Rightarrow> []
      | Fulfilled (Some pairs) \<Rightarrow> pairs)"

definition resolvedTokens :: "(string \<Rightarrow> pair list option promise) \<Rightarrow> string list list \<Rightarrow> pair list" where
  "resolvedTokens lookup chunks = concat (map (fetch_batch lookup) chunks)"

text \<open>The response of the \<^verbatim>\<open>catch\<close> block (lines 164-167).\<close>

definition scan_failed :: response where
  "scan_failed = \<lparr> status = 500, body = Failure ''Massive Scan Failed.'' \<rparr>"

text \<open>
  The handler: the response and the calls issued after the harvest. \<^verbatim>\<open>Promise.all\<close> of
  line 103 is fulfilled only when all three calls are; any exception inside the \<^verbatim>\<open>try\<close>
  ends in the \<^verbatim>\<open>catch\<close>. \<^verbatim>\<open>res.json\<close> answers with status 200.
\<close>

definition hunt :: "world \<Rightarrow> response \<times> call list" where
  "hunt w =
     (case (profilesRes w, boostsRes w, topRes w) of
        (Fulfilled a, Fulfilled b, Fulfilled c) \<Rightarrow>
          (let allRaw = allRaw_of a b c in
           case chunkArray (uniqueAddresses allRaw) 30 of
             Inl e \<Rightarrow> (scan_failed, [])
           | Inr chunks \<Rightarrow>
               (let finalTokens = finalTokenList allRaw (resolvedTokens (tokens_api w) chunks);
                    pat = findMetaPattern finalTokens;
                    ai = getAiAnalysis (groq_api w) (meta pat) (count pat) (filtered pat)
                in (\<lparr> status = 200,
                      body = Success (length finalTokens) (meta pat) (count pat) (fst ai)
                               (filtered pat) \<rparr>,
                    map (\<lambda>chunk. Tokens_call (join '','' chunk)) chunks @
                    map Groq_call (snd ai))))
      | _ \<Rightarrow> (scan_failed, []))"

text \<open>The canonical records of a request whose harvest gave \<open>a\<close>, \<open>b\<close> and \<open>c\<close> (line 147).\<close>

definition scanned :: "world \<Rightarrow> raw list \<Rightarrow> raw list \<Rightarrow> raw list \<Rightarrow> token list" where
  "scanned w a b c =
     (case chunkArray (uniqueAddresses (allRaw_of a b c)) 30 of
        Inl e \<Rightarrow> []
      | Inr chunks \<Rightarrow> finalTokenList (allRaw_of a b c) (resolvedTokens (tokens_api w) chunks))"

text \<open>The collaborator call fails: it rejects, or its response has no \<open>choices\<close> to read.\<close>

definition collaborator_fails :: "completion promise \<Rightarrow> bool" where
  "collaborator_fails r = (case r of Rejected e \<Rightarrow> True | Fulfilled c \<Rightarrow> choices c = None)"

text \<open>Worlds used as concrete inputs.\<close>

definition raw_at :: "string \<Rightarrow> string \<Rightarrow> raw" where
  "raw_at chain a = \<lparr> chainId = chain, tokenAddress = a, icon = None, header = None,
                       description = Some ''A dog with a crown'' \<rparr>"

definition pair_named :: "string \<Rightarrow> string \<Rightarrow> pair" where
  "pair_named a n = \<lparr> baseToken_name = n, baseToken_symbol = ''SYM'', baseToken_address = a,
                      url = ''https://dex/x'', liquidity_usd = Some 1,
                      info_imageUrl = None, info_header = None \<rparr>"

definition doge_pairs :: "pair list" where
  "doge_pairs = [pair_named ''A1'' ''Doge King'', pair_named ''A2'' ''Doge Queen'',
                 pair_named ''A3'' ''Doge Lord'']"

text \<open>The canonical records of these pairs when every address was harvested.\<close>

definition doge_tokens :: "token list" where
  "doge_tokens =
     finalTokenList [raw_at ''solana'' ''A1'', raw_at ''solana'' ''A2'', raw_at ''solana'' ''A3'']
       doge_pairs"

text \<open>The harvest and the enrichment succeed, the collaborator rejects every call.\<close>

definition world_groq_down :: world where
  "world_groq_down =
     \<lparr> profilesRes = Fulfilled [raw_at ''solana'' ''A1'', raw_at ''ethereum'' ''E1''],
       boostsRes = Fulfilled [raw_at ''solana'' ''A2'', raw_at ''solana'' ''A1''],
       topRes = Fulfilled [raw_at ''solana'' ''A3''],
       tokens_api = (\<lambda>ids. Fulfilled (Some doge_pairs)),
       groq_api = (\<lambda>p. Rejected ''401 Invalid API Key'') \<rparr>"

text \<open>The second harvest call rejects.\<close>

definition world_boosts_down :: world where
  "world_boosts_down =
     \<lparr> profilesRes = Fulfilled [raw_at ''solana'' ''A1''],
       boostsRes = Rejected ''Request failed with status code 503'',
       topRes = Fulfilled [raw_at ''solana'' ''A3''],
       tokens_api = (\<lambda>ids. Fulfilled (Some doge_pairs)),
       groq_api = (\<lambda>p. Rejected ''401 Invalid API Key'') \<rparr>"

text \<open>
  Sixty-five addresses (the decimal numerals of 0 to 64), and an enrichment service that
  rejects the lookup of the second batch and answers any other lookup with one pair that
  carries the identifiers it was asked for.
\<close>

definition addrs65 :: "string list" where
  "addrs65 = map decimal [0..<65]"

definition lookup65 :: "string \<Rightarrow> pair list option promise" where
  "lookup65 ids =
     (if ids = join '','' (take 30 (drop 30 addrs65)) then Rejected ''timeout''
      else Fulfilled (Some [pair_named ids ''Pool'']))"

definition world65 :: world where
  "world65 =
     \<lparr> profilesRes = Fulfilled (map (raw_at ''solana'') addrs65),
       boostsRes = Fulfilled [],
       topRes = Fulfilled [],
       tokens_api = lookup65,
       groq_api = (\<lambda>p. Rejected ''401 Invalid API Key'') \<rparr>"

section \<open>Properties of the deduplication\<close>

lemma update_absent: "map_of m k = None \<Longrightarrow> AList.update k v m = m @ [(k, v)]"
  by (induction m) (auto split: if_splits)

text \<open>The stored value is never replaced: the comparison of line 133 is always false.\<close>

lemma dedup_step_eq:
  "dedup_step allRaw m p =
     (if map_of m (baseToken_address p) = None
      then m @ [(baseToken_address p, canonical allRaw p)] else m)"
  by (auto simp: dedup_step_def Let_def stored_liquidity_def update_absent split: option.splits)

lemma map_of_dedup_step:
  "map_of (dedup_step allRaw m p) a =
     (case map_of m a of
        Some t \<Rightarrow> Some t
      | None \<Rightarrow> if baseToken_address p = a then Some (canonical allRaw p) else None)"
  by (auto simp: dedup_step_eq map_add_def split: option.splits)

lemma map_of_foldl_dedup:
  "map_of (foldl (dedup_step allRaw) m ps) a =
     (case map_of m a of
        Some t \<Rightarrow> Some t
      | None \<Rightarrow> map_option (canonical allRaw) (find (\<lambda>p. baseToken_address p = a) ps))"
proof (induction ps arbitrary: m)
  case Nil
  then show ?case by (simp split: option.splits)
next
  case (Cons p ps)
  show ?case
    by (simp add: Cons.IH map_of_dedup_step split: option.splits)
qed

text \<open>For every address the map holds the object built from the first pair with it.\<close>

lemma map_of_uniqueTokensMap:
  "map_of (uniqueTokensMap allRaw ps) a =
     map_option (canonical allRaw) (find (\<lambda>p. baseToken_address p = a) ps)"
  by (simp add: uniqueTokensMap_def map_of_foldl_dedup)

lemma distinct_dedup_step:
  "distinct (map fst m) \<Longrightarrow> distinct (map fst (dedup_step allRaw m p))"
  by (auto simp: dedup_step_eq map_of_eq_None_iff)

lemma distinct_foldl_dedup:
  "distinct (map fst m) \<Longrightarrow> distinct (map fst (foldl (dedup_step allRaw) m ps))"
  by (induction ps arbitrary: m) (simp_all add: distinct_dedup_step)

lemma distinct_uniqueTokensMap: "distinct (map fst (uniqueTokensMap allRaw ps))"
  by (simp add: uniqueTokensMap_def distinct_foldl_dedup)

lemma keys_dedup_step:
  "set (map fst (dedup_step allRaw m p)) = insert (baseToken_address p) (set (map fst m))"
  by (auto simp: dedup_step_eq map_of_eq_None_iff)

lemma keys_foldl_dedup:
  "set (map fst (foldl (dedup_step allRaw) m ps)) = set (map fst m) \<union> baseToken_address ` set ps"
  by (induction ps arbitrary: m) (simp_all add: keys_dedup_step del: set_map)

lemma keys_uniqueTokensMap:
  "set (map fst (uniqueTokensMap allRaw ps)) = baseToken_address ` set ps"
  by (simp add: uniqueTokensMap_def keys_foldl_dedup del: set_map)

lemma address_canonical [simp]: "address (canonical allRaw p) = baseToken_address p"
  by (simp add: canonical_def Let_def)

lemma key_is_address_step:
  "\<forall>(k, t) \<in> set m. address t = k \<Longrightarrow> \<forall>(k, t) \<in> set (dedup_step allRaw m p). address t = k"
  by (auto simp: dedup_step_eq)

lemma key_is_address_foldl:
  "\<forall>(k, t) \<in> set m. address t = k \<Longrightarrow>
   \<forall>(k, t) \<in> set (foldl (dedup_step allRaw) m ps). address t = k"
proof (induction ps arbitrary: m)
  case Nil
  then show ?case by simp
next
  case (Cons p ps)
  have "\<forall>(k, t) \<in> set (dedup_step allRaw m p). address t = k"
    by (rule key_is_address_step [OF Cons.prems])
  then have "\<forall>(k, t) \<in> set (foldl (dedup_step allRaw) (dedup_step allRaw m p) ps). address t = k"
    by (rule Cons.IH)
  then show ?case by simp
qed

lemma addresses_are_keys:
  "map address (finalTokenList allRaw ps) = map fst (uniqueTokensMap allRaw ps)"
proof -
  have "\<forall>(k, t) \<in> set (uniqueTokensMap allRaw ps). address t = k"
    unfolding uniqueTokensMap_def by (rule key_is_address_foldl) simp
  then show ?thesis
    by (auto simp: finalTokenList_def)
qed

lemma set_finalTokenList:
  "set (finalTokenList allRaw ps) =
     {t. \<exists>a. map_option (canonical allRaw) (find (\<lambda>p. baseToken_address p = a) ps) = Some t}"
proof -
  have "t \<in> set (finalTokenList allRaw ps) \<longleftrightarrow>
        (\<exists>a. map_of (uniqueTokensMap allRaw ps) a = Some t)" for t
    using distinct_uniqueTokensMap [of allRaw ps]
    by (force simp: finalTokenList_def)
  then show ?thesis
    by (auto simp: map_of_uniqueTokensMap)
qed

lemma find_as_filter:
  "find P xs = (case filter P xs of [] \<Rightarrow> None | x # _ \<Rightarrow> Some x)"
  by (induction xs) auto

section \<open>Properties of the pattern engine\<close>

lemma foldl_count_word: "foldl count_word wc ws = foldl bump wc (filter qualifies ws)"
  by (induction ws arbitrary: wc) (simp_all add: count_word_def)

lemma count_token_eq: "count_token wc t = foldl bump wc (name_words t)"
  by (simp add: count_token_def name_words_def foldl_count_word)

lemma foldl_count_token:
  "foldl count_token wc tokens = foldl bump wc (concat (map name_words tokens))"
  by (induction tokens arbitrary: wc) (simp_all add: count_token_eq)

lemma wordCounts_eq: "wordCounts tokens = foldl bump [] (all_words tokens)"
  by (simp add: wordCounts_def all_words_def foldl_count_token)

lemma insertion_order_snoc:
  "insertion_order (xs @ [x]) =
     (if x \<in> set (insertion_order xs) then insertion_order xs else insertion_order xs @ [x])"
  by (simp add: insertion_order_def)

lemma set_insertion_order [simp]: "set (insertion_order xs) = set xs"
  by (induction xs rule: rev_induct) (auto simp: insertion_order_snoc insertion_order_def)

lemma distinct_insertion_order [simp]: "distinct (insertion_order xs)"
  by (induction xs rule: rev_induct) (auto simp: insertion_order_snoc insertion_order_def)

lemma find_snoc:
  "find P (xs @ [x]) = (case find P xs of Some y \<Rightarrow> Some y | None \<Rightarrow> if P x then Some x else None)"
  by (induction xs) auto

lemma find_insertion_order: "find P (insertion_order xs) = find P xs"
proof (induction xs rule: rev_induct)
  case Nil
  show ?case by (simp add: insertion_order_def)
next
  case (snoc x xs)
  show ?case
  proof (cases "x \<in> set xs")
    case True
    then have "find P xs = None \<Longrightarrow> \<not> P x"
      by (auto simp: find_None_iff)
    with True snoc show ?thesis
      by (auto simp: insertion_order_snoc find_snoc split: option.splits)
  next
    case False
    with snoc show ?thesis
      by (simp add: insertion_order_snoc find_snoc)
  qed
qed

lemma bump_absent:
  "w \<notin> set ks \<Longrightarrow> bump (map (\<lambda>v. (v, g v)) ks) w = map (\<lambda>v. (v, g v)) ks @ [(w, 1)]"
  by (induction ks) auto

lemma bump_present:
  "w \<in> set ks \<Longrightarrow> distinct ks \<Longrightarrow>
   bump (map (\<lambda>v. (v, g v)) ks) w = map (\<lambda>v. (v, if v = w then g v + 1 else g v)) ks"
  by (induction ks) auto

lemma foldl_bump_counts:
  "foldl bump [] ws = map (\<lambda>w. (w, count_list ws w)) (insertion_order ws)"
proof (induction ws rule: rev_induct)
  case Nil
  show ?case by (simp add: insertion_order_def)
next
  case (snoc x ws)
  show ?case
  proof (cases "x \<in> set ws")
    case True
    then show ?thesis
      by (simp add: snoc insertion_order_snoc bump_present)
  next
    case False
    then show ?thesis
      by (auto simp: snoc insertion_order_snoc bump_absent)
  qed
qed

lemma hd_insort_key:
  "hd (insort_key f x ys) = (if ys = [] \<or> f x \<le> f (hd ys) then x else hd ys)"
  by (cases ys) auto

lemma sort_key_Cons: "sort_key f (x # xs) = insort_key f x (sort_key f xs)"
  by (simp add: sort_key_def)

lemma find_least_key:
  "xs \<noteq> [] \<Longrightarrow> find (\<lambda>x. \<forall>y \<in> set xs. f x \<le> f y) xs = Some (hd (sort_key f xs))"
proof (induction xs)
  case Nil
  then show ?case by simp
next
  case (Cons x xs)
  show ?case
  proof (cases "xs = []")
    case True
    then show ?thesis by simp
  next
    case False
    let ?h = "hd (sort_key f xs)"
    from False Cons.IH have ih: "find (\<lambda>z. \<forall>y \<in> set xs. f z \<le> f y) xs = Some ?h"
      by simp
    then have h_in: "?h \<in> set xs" and h_min: "\<forall>y \<in> set xs. f ?h \<le> f y"
      by (auto simp: find_Some_iff)
    from False have ne: "sort_key f xs \<noteq> []"
      by (metis length_sort list.size(3) length_0_conv)
    show ?thesis
    proof (cases "f x \<le> f ?h")
      case True
      with h_min have "\<forall>y \<in> set (x # xs). f x \<le> f y"
        by auto
      with True ne show ?thesis
        by (simp add: sort_key_Cons hd_insort_key)
    next
      case less: False
      then have not_x: "\<not> (\<forall>y \<in> set (x # xs). f x \<le> f y)"
        using h_in by auto
      have "find (\<lambda>z. \<forall>y \<in> set (x # xs). f z \<le> f y) xs =
            find (\<lambda>z. \<forall>y \<in> set xs. f z \<le> f y) xs"
      proof (rule find_cong [OF refl])
        fix z assume "z \<in> set xs"
        show "(\<forall>y \<in> set (x # xs). f z \<le> f y) = (\<forall>y \<in> set xs. f z \<le> f y)"
          using less h_in by auto
      qed
      moreover have "find (\<lambda>z. \<forall>y \<in> set (x # xs). f z \<le> f y) (x # xs) =
                     find (\<lambda>z. \<forall>y \<in> set (x # xs). f z \<le> f y) xs"
        by (simp only: find.simps not_x if_False)
      moreover have "hd (sort_key f (x # xs)) = ?h"
        using less ne by (simp add: sort_key_Cons hd_insort_key)
      ultimately show ?thesis
        using ih by simp
    qed
  qed
qed

lemma find_map_fun: "find P (map g xs) = map_option g (find (\<lambda>x. P (g x)) xs)"
  by (induction xs) auto

lemma top_count_fun:
  "top_count ws = (\<lambda>w. \<forall>v \<in> set ws. count_list ws v \<le> count_list ws w)"
  by (simp add: fun_eq_iff top_count_def)

lemma hd_sortedWords:
  assumes "all_words tokens \<noteq> []"
  shows "\<exists>w. first_top (all_words tokens) = Some w \<and>
             sortedWords tokens \<noteq> [] \<and>
             hd (sortedWords tokens) = (w, count_list (all_words tokens) w)"
proof -
  let ?ws = "all_words tokens"
  let ?g = "\<lambda>w. (w, count_list ?ws w)"
  let ?wc = "map ?g (insertion_order ?ws)"
  let ?f = "\<lambda>e :: string \<times> nat. - int (snd e)"
  have wc: "wordCounts tokens = ?wc"
    by (simp add: wordCounts_eq foldl_bump_counts)
  from assms have "set (insertion_order ?ws) \<noteq> {}" by simp
  then have "insertion_order ?ws \<noteq> []" by (simp only: set_empty not_False_eq_True)
  then have ne: "?wc \<noteq> []" by simp
  have "find (\<lambda>e. \<forall>y \<in> set ?wc. ?f e \<le> ?f y) ?wc = Some (hd (sort_key ?f ?wc))"
    by (rule find_least_key [OF ne])
  moreover have "find (\<lambda>e. \<forall>y \<in> set ?wc. ?f e \<le> ?f y) ?wc =
                 map_option ?g (find (top_count ?ws) (insertion_order ?ws))"
    by (simp add: find_map_fun top_count_fun)
  ultimately have "map_option ?g (first_top ?ws) = Some (hd (sortedWords tokens))"
    by (simp add: first_top_def find_insertion_order sortedWords_def wc)
  moreover from ne have "sortedWords tokens \<noteq> []"
    by (metis wc sortedWords_def length_sort length_0_conv)
  ultimately show ?thesis by auto
qed

lemma count_list_concat:
  "count_list (concat xss) w = sum_list (map (\<lambda>xs. count_list xs w) xss)"
  by (induction xss) simp_all

lemma occurrences_eq: "occurrences w tokens = count_list (all_words tokens) w"
  by (simp add: occurrences_def all_words_def count_list_concat comp_def)

lemma occurrences_once:
  "\<forall>t \<in> set tokens. count_list (name_words t) w \<le> 1 \<Longrightarrow>
   occurrences w tokens = records_containing w tokens"
proof (induction tokens)
  case Nil
  show ?case by (simp add: occurrences_def records_containing_def)
next
  case (Cons t ts)
  then have "count_list (name_words t) w = (if w \<in> set (name_words t) then 1 else 0)"
    using count_list_0_iff [of "name_words t" w] by (cases "count_list (name_words t) w") auto
  with Cons show ?case
    by (simp add: occurrences_def records_containing_def)
qed

lemma split_spaces_pieces:
  "w \<in> set (split_spaces s) \<Longrightarrow> set w \<subseteq> set s \<and> CHR '' '' \<notin> set w"
proof (induction s arbitrary: w)
  case Nil
  then show ?case by simp
next
  case (Cons c cs)
  show ?case
  proof (cases "c = CHR '' ''")
    case True
    with Cons.prems have "w = [] \<or> w \<in> set (split_spaces cs)"
      by (auto split: if_splits)
    with Cons.IH show ?thesis by auto
  next
    case False
    show ?thesis
    proof (cases "split_spaces cs")
      case Nil
      with False Cons.prems show ?thesis by simp
    next
      case (Cons v vs)
      with False Cons.prems have "w = c # v \<or> w \<in> set vs"
        by auto
      moreover have "set v \<subseteq> set cs \<and> CHR '' '' \<notin> set v"
        by (rule Cons.IH) (simp add: Cons)
      moreover have "w \<in> set vs \<Longrightarrow> set w \<subseteq> set cs \<and> CHR '' '' \<notin> set w"
        by (rule Cons.IH) (simp add: Cons)
      ultimately show ?thesis using False by auto
    qed
  qed
qed

lemma cleanName_chars: "set (cleanName n) \<subseteq> insert CHR '' '' (set upper_letters)"
  by (auto simp: cleanName_def blank_non_letters_def)

lemma name_words_capitals:
  assumes "w \<in> set (name_words t)"
  shows "set w \<subseteq> set upper_letters \<and> 3 \<le> length w \<and> length w \<le> 14"
proof -
  from assms have w: "w \<in> set (split_spaces (cleanName (name t)))" and q: "qualifies w"
    by (simp_all add: name_words_def)
  from split_spaces_pieces [OF w] cleanName_chars [of "name t"]
  have "set w \<subseteq> set upper_letters" by auto
  with q show ?thesis by (simp add: qualifies_def)
qed

section \<open>Properties of the endpoint\<close>

lemma chunkArray_30:
  "chunkArray arr 30 = Inr (map (\<lambda>i. take 30 (drop (i * 30) arr)) [0..<(length arr + 29) div 30])"
  by (simp add: chunkArray_def add.commute)

lemma hunt_after_harvest:
  assumes "profilesRes w = Fulfilled a" and "boostsRes w = Fulfilled b" and "topRes w = Fulfilled c"
  shows "fst (hunt w) =
           \<lparr> status = 200,
             body = Success (length (scanned w a b c))
                      (meta (findMetaPattern (scanned w a b c)))
                      (count (findMetaPattern (scanned w a b c)))
                      (fst (getAiAnalysis (groq_api w)
                              (meta (findMetaPattern (scanned w a b c)))
                              (count (findMetaPattern (scanned w a b c)))
                              (filtered (findMetaPattern (scanned w a b c)))))
                      (filtered (findMetaPattern (scanned w a b c))) \<rparr>"
  using assms by (simp add: hunt_def scanned_def chunkArray_30 Let_def)

lemma verdict_fails: "collaborator_fails r \<Longrightarrow> verdict r = ai_error_message"
  by (auto simp: collaborator_fails_def verdict_def split: promise.splits)

lemma chunks_of_65:
  assumes "length addrs = 65"
  shows "chunkArray addrs 30 = Inr [take 30 addrs, take 30 (drop 30 addrs), drop 60 addrs]"
proof -
  have "[0..<(length addrs + 29) div 30] = [0, 1, 2]"
    using assms by (simp add: upt_rec)
  with assms show ?thesis
    by (simp add: chunkArray_30)
qed

section \<open>The claims about the resolver\<close>

text \<open>
  C1 (code as written): the claim says that of two pairs with the same base address the one
  with the strictly greater liquidity supplies name, symbol and url. Line 133 compares the
  new pair's liquidity with the property \<^verbatim>\<open>liquidity\<close> of the stored object, which that
  object does not have, so the comparison never holds and the pair met first is kept:
  here the pair with liquidity 10 stays although the pair with liquidity 100 follows it.
\<close>

theorem lower_liquidity_pair_kept:
  "baseToken_address pair_low = baseToken_address pair_high \<and>
   liquidity_usd pair_low = Some 10 \<and> liquidity_usd pair_high = Some 100 \<and>
   map name (finalTokenList [] [pair_low, pair_high]) = [''LOW POOL''] \<and>
   map symbol (finalTokenList [] [pair_low, pair_high]) = [''LOW''] \<and>
   map token.url (finalTokenList [] [pair_low, pair_high]) = [''https://dex/low'']"
  by (simp add: finalTokenList_def uniqueTokensMap_def dedup_step_eq canonical_def
      pair_low_def pair_high_def)

text \<open>
  C2 (code as written): the claim says that any two orderings of the same pairs give the
  same canonical set, the comparison and not the sequence deciding the winner. Because the
  comparison of line 133 reads a property the stored object does not have (see C1), the
  pair met first is kept whatever the liquidities: the two orderings of a pair with
  liquidity 10 and a pair with liquidity 100 for one address give different canonical sets.
\<close>

theorem resolver_depends_on_order:
  "baseToken_address pair_low = baseToken_address pair_high \<and>
   liquidity_usd pair_low = Some 10 \<and> liquidity_usd pair_high = Some 100 \<and>
   map name (finalTokenList [] [pair_low, pair_high]) = [''LOW POOL''] \<and>
   map name (finalTokenList [] [pair_high, pair_low]) = [''HIGH POOL''] \<and>
   set (finalTokenList [] [pair_low, pair_high]) \<noteq>
   set (finalTokenList [] [pair_high, pair_low])"
  by (simp add: finalTokenList_def uniqueTokensMap_def dedup_step_eq canonical_def
      pair_low_def pair_high_def)

text \<open>
  C3: whatever the harvest and the enrichment returned, no address occurs twice among the
  canonical records, and the addresses that occur are exactly the base addresses of the
  pairs: one canonical record for each of them.
\<close>

theorem canonical_address_once:
  "distinct (map address (finalTokenList allRaw ps)) \<and>
   set (map address (finalTokenList allRaw ps)) = baseToken_address ` set ps"
  by (simp only: addresses_are_keys distinct_uniqueTokensMap keys_uniqueTokensMap simp_thms)

theorem canonical_address_once_witness:
  "distinct (map address (finalTokenList [] [pair_low, pair_high, pair_other])) \<and>
   set (map address (finalTokenList [] [pair_low, pair_high, pair_other])) = {''Addr1'', ''Addr3''}"
  using canonical_address_once [of "[]" "[pair_low, pair_high, pair_other]"]
  by (simp add: pair_low_def pair_high_def pair_other_def insert_commute)

section \<open>The claims about the pattern engine\<close>

text \<open>
  C4 (as stated, refuted): the claim says that the support count is the number of records
  whose counted words contain the theme. One record named "Doge Doge" gives the theme DOGE
  with support count 2, while one record contains the word.
\<close>

theorem support_count_counterexample:
  "meta (findMetaPattern ex_twice) = ''DOGE'' \<and>
   count (findMetaPattern ex_twice) = 2 \<and>
   records_containing ''DOGE'' ex_twice = 1"
  by code_simp

text \<open>
  C4 (amended): when a theme is found, the support count is the number of times the theme
  word is counted over all names, a word that stands twice in one name counting twice; it
  is the number of records containing the word when no name holds the word more than once.
\<close>

theorem support_count_is_occurrences:
  assumes "all_words tokens \<noteq> []"
  shows "count (findMetaPattern tokens) = occurrences (meta (findMetaPattern tokens)) tokens \<and>
         ((\<forall>t \<in> set tokens. count_list (name_words t) (meta (findMetaPattern tokens)) \<le> 1) \<longrightarrow>
          count (findMetaPattern tokens) = records_containing (meta (findMetaPattern tokens)) tokens)"
proof -
  from hd_sortedWords [OF assms] obtain w where
    ne: "sortedWords tokens \<noteq> []" and
    hd: "hd (sortedWords tokens) = (w, count_list (all_words tokens) w)"
    by blast
  then have "meta (findMetaPattern tokens) = w"
    and "count (findMetaPattern tokens) = count_list (all_words tokens) w"
    by (auto simp: findMetaPattern_def split: list.splits)
  then show ?thesis
    by (simp add: occurrences_eq [symmetric] occurrences_once)
qed

theorem support_count_is_occurrences_witness:
  "all_words ex_doge \<noteq> [] \<and>
   meta (findMetaPattern ex_doge) = ''DOGE'' \<and>
   count (findMetaPattern ex_doge) = 3 \<and>
   occurrences ''DOGE'' ex_doge = 3 \<and>
   records_containing ''DOGE'' ex_doge = 3"
proof -
  have h: "all_words ex_doge \<noteq> []" by code_simp
  have m: "meta (findMetaPattern ex_doge) = ''DOGE''" by code_simp
  have o: "occurrences ''DOGE'' ex_doge = 3" by code_simp
  have r: "records_containing ''DOGE'' ex_doge = 3" by code_simp
  from support_count_is_occurrences [OF h] h m o r show ?thesis by simp
qed

text \<open>
  C5: when no word of any name passes the test of line 43, the result is the theme "None"
  with count 0 and the first 20 records of the input, in input order.
\<close>

theorem no_word_survives:
  assumes "all_words tokens = []"
  shows "findMetaPattern tokens = \<lparr> meta = ''None'', count = 0, filtered = take 20 tokens \<rparr>"
  using assms by (simp add: findMetaPattern_def sortedWords_def wordCounts_eq)

theorem no_word_survives_witness:
  "all_words ex_stop = [] \<and>
   findMetaPattern ex_stop = \<lparr> meta = ''None'', count = 0, filtered = take 20 ex_stop \<rparr>"
proof -
  have h: "all_words ex_stop = []" by code_simp
  from no_word_survives [OF h] h show ?thesis by simp
qed

text \<open>
  C10: when a theme is found, it is the first word, in the order in which the words are
  counted (record by record, word by word), that has the greatest count: among the words
  sharing the greatest count, the one first met. Every counted word consists of capital
  Latin letters only, so the keys of \<^verbatim>\<open>wordCounts\<close> stand in insertion order.
\<close>

theorem theme_is_first_top:
  assumes "all_words tokens \<noteq> []"
  shows "first_top (all_words tokens) = Some (meta (findMetaPattern tokens)) \<and>
         (\<forall>w \<in> set (all_words tokens). set w \<subseteq> set upper_letters)"
proof -
  from hd_sortedWords [OF assms] obtain w where
    ft: "first_top (all_words tokens) = Some w" and
    ne: "sortedWords tokens \<noteq> []" and
    hd: "hd (sortedWords tokens) = (w, count_list (all_words tokens) w)"
    by blast
  from ne hd have "meta (findMetaPattern tokens) = w"
    by (auto simp: findMetaPattern_def split: list.splits)
  with ft show ?thesis
    by (auto simp: all_words_def dest: name_words_capitals)
qed

theorem theme_is_first_top_witness:
  "all_words ex_tie = [''KING'', ''DOGE'', ''DOGE'', ''KING''] \<and>
   count_list (all_words ex_tie) ''KING'' = count_list (all_words ex_tie) ''DOGE'' \<and>
   meta (findMetaPattern ex_tie) = ''KING''"
proof -
  have w: "all_words ex_tie = [''KING'', ''DOGE'', ''DOGE'', ''KING'']" by code_simp
  then have h: "all_words ex_tie \<noteq> []" by simp
  have f: "first_top [''KING'', ''DOGE'', ''DOGE'', ''KING''] = Some ''KING''" by code_simp
  from theme_is_first_top [OF h] w f show ?thesis by simp
qed

section \<open>The claims about the narrative, the batches and the endpoint\<close>

text \<open>
  C6: with a support count below 3 the requester returns the fixed message of line 66 and
  sends no prompt to the collaborator, whatever the collaborator would have answered.
\<close>

theorem weak_signal_not_narrated:
  assumes "cnt < 3"
  shows "getAiAnalysis groq metaWord cnt tokens = (scattered_message, [])"
  using assms by (simp add: getAiAnalysis_def)

theorem weak_signal_not_narrated_witness:
  "(2::nat) < 3 \<and>
   getAiAnalysis (groq_api world_groq_down) ''DOGE'' 2 ex_doge = (scattered_message, [])"
  using weak_signal_not_narrated [of 2 "groq_api world_groq_down" "''DOGE''" ex_doge]
  by simp

text \<open>
  C7: with a support count of at least 3 and a failing collaborator call (a rejection, or
  a response without choices), the requester returns the fixed message of line 95 after
  its one call; it has no exceptional result, the failure being caught at line 93. Every
  request whose harvest succeeded and which makes this call answers with status 200 and a
  success envelope carrying that message.
\<close>

theorem generation_failure_absorbed:
  assumes "3 \<le> cnt" and "collaborator_fails (groq (prompt metaWord cnt tokens))"
  shows "getAiAnalysis groq metaWord cnt tokens =
           (ai_error_message, [prompt metaWord cnt tokens]) \<and>
         (\<forall>w a b c.
            profilesRes w = Fulfilled a \<and> boostsRes w = Fulfilled b \<and> topRes w = Fulfilled c \<and>
            groq_api w = groq \<and>
            findMetaPattern (scanned w a b c) =
              \<lparr> meta = metaWord, count = cnt, filtered = tokens \<rparr> \<longrightarrow>
            fst (hunt w) =
              \<lparr> status = 200,
                body = Success (length (scanned w a b c)) metaWord cnt ai_error_message tokens \<rparr>)"
proof -
  have g: "getAiAnalysis groq metaWord cnt tokens =
             (ai_error_message, [prompt metaWord cnt tokens])"
    using assms by (simp add: getAiAnalysis_def Let_def verdict_fails)
  show ?thesis
  proof (intro conjI allI impI)
    show "getAiAnalysis groq metaWord cnt tokens =
            (ai_error_message, [prompt metaWord cnt tokens])"
      by (rule g)
  next
    fix w a b c
    assume h: "profilesRes w = Fulfilled a \<and> boostsRes w = Fulfilled b \<and> topRes w = Fulfilled c \<and>
               groq_api w = groq \<and>
               findMetaPattern (scanned w a b c) =
                 \<lparr> meta = metaWord, count = cnt, filtered = tokens \<rparr>"
    then have "fst (hunt w) =
           \<lparr> status = 200,
             body = Success (length (scanned w a b c))
                      (meta (findMetaPattern (scanned w a b c)))
                      (count (findMetaPattern (scanned w a b c)))
                      (fst (getAiAnalysis (groq_api w)
                              (meta (findMetaPattern (scanned w a b c)))
                              (count (findMetaPattern (scanned w a b c)))
                              (filtered (findMetaPattern (scanned w a b c)))))
                      (filtered (findMetaPattern (scanned w a b c))) \<rparr>"
      by (intro hunt_after_harvest) simp_all
    with h g show "fst (hunt w) =
              \<lparr> status = 200,
                body = Success (length (scanned w a b c)) metaWord cnt ai_error_message tokens \<rparr>"
      by simp
  qed
qed

theorem generation_failure_absorbed_witness:
  "(3::nat) \<le> 3 \<and>
   collaborator_fails (groq_api world_groq_down (prompt ''DOGE'' 3 doge_tokens)) \<and>
   getAiAnalysis (groq_api world_groq_down) ''DOGE'' 3 doge_tokens =
     (ai_error_message, [prompt ''DOGE'' 3 doge_tokens]) \<and>
   length (scanned world_groq_down [raw_at ''solana'' ''A1'', raw_at ''ethereum'' ''E1'']
             [raw_at ''solana'' ''A2'', raw_at ''solana'' ''A1''] [raw_at ''solana'' ''A3'']) = 3 \<and>
   fst (hunt world_groq_down) =
     \<lparr> status = 200,
       body = Success 3 ''DOGE'' 3 ai_error_message doge_tokens \<rparr>"
proof -
  let ?a = "[raw_at ''solana'' ''A1'', raw_at ''ethereum'' ''E1'']"
  let ?b = "[raw_at ''solana'' ''A2'', raw_at ''solana'' ''A1'']"
  let ?c = "[raw_at ''solana'' ''A3'']"
  let ?toks = "doge_tokens"
  have c: "(3::nat) \<le> 3" by simp
  have f: "collaborator_fails (groq_api world_groq_down (prompt ''DOGE'' 3 ?toks))"
    by (simp add: world_groq_down_def collaborator_fails_def)
  have h: "profilesRes world_groq_down = Fulfilled ?a \<and> boostsRes world_groq_down = Fulfilled ?b \<and>
           topRes world_groq_down = Fulfilled ?c \<and> groq_api world_groq_down = groq_api world_groq_down"
    by (simp add: world_groq_down_def)
  have p: "findMetaPattern (scanned world_groq_down ?a ?b ?c) =
             \<lparr> meta = ''DOGE'', count = 3, filtered = ?toks \<rparr>"
    by code_simp
  have n: "length (scanned world_groq_down ?a ?b ?c) = 3"
    by code_simp
  from generation_failure_absorbed
         [of 3 "groq_api world_groq_down" "''DOGE''" doge_tokens, OF c f] h p n c f
  show ?thesis
    by simp
qed

text \<open>
  C8: 65 addresses with the batch size 30 give exactly the three contiguous batches of 30,
  30 and 5 addresses. When the lookup of one of them is rejected, that batch contributes
  the empty list and the merged result is the concatenation of what the other two batches
  return; a request with these addresses resolves exactly those pairs and answers with
  status 200.
\<close>

theorem batches_of_65:
  assumes len: "length addrs = 65"
    and cs: "cs = [take 30 addrs, take 30 (drop 30 addrs), drop 60 addrs]"
    and i: "i < 3"
    and rejected: "lookup (join '','' (cs ! i)) = Rejected e"
  shows "chunkArray addrs 30 = Inr cs \<and> map length cs = [30, 30, 5] \<and> concat cs = addrs \<and>
         fetch_batch lookup (cs ! i) = [] \<and>
         resolvedTokens lookup cs =
           concat (map (fetch_batch lookup) (take i cs @ drop (Suc i) cs)) \<and>
         (\<forall>w a b c.
            profilesRes w = Fulfilled a \<and> boostsRes w = Fulfilled b \<and> topRes w = Fulfilled c \<and>
            tokens_api w = lookup \<and> uniqueAddresses (allRaw_of a b c) = addrs \<longrightarrow>
            scanned w a b c =
              finalTokenList (allRaw_of a b c)
                (concat (map (fetch_batch lookup) (take i cs @ drop (Suc i) cs))) \<and>
            status (fst (hunt w)) = 200)"
proof -
  have chunks: "chunkArray addrs 30 = Inr cs"
    using len cs by (simp add: chunks_of_65)
  have lens: "map length cs = [30, 30, 5]"
    using len cs by simp
  have cat: "concat cs = addrs"
  proof -
    have "take 30 (drop 30 addrs) @ drop 60 addrs = drop 30 addrs"
      using append_take_drop_id [of 30 "drop 30 addrs"] by simp
    then show ?thesis
      using cs by simp
  qed
  have empty: "fetch_batch lookup (cs ! i) = []"
    using rejected by (simp add: fetch_batch_def)
  from i have "i = 0 \<or> i = 1 \<or> i = 2" by auto
  then have merged: "resolvedTokens lookup cs =
                       concat (map (fetch_batch lookup) (take i cs @ drop (Suc i) cs))"
    using empty cs by (auto simp: resolvedTokens_def)
  have pipeline: "scanned w a b c =
              finalTokenList (allRaw_of a b c)
                (concat (map (fetch_batch lookup) (take i cs @ drop (Suc i) cs))) \<and>
            status (fst (hunt w)) = 200"
    if "profilesRes w = Fulfilled a \<and> boostsRes w = Fulfilled b \<and> topRes w = Fulfilled c \<and>
        tokens_api w = lookup \<and> uniqueAddresses (allRaw_of a b c) = addrs" for w a b c
  proof -
    from that chunks merged have "scanned w a b c =
              finalTokenList (allRaw_of a b c)
                (concat (map (fetch_batch lookup) (take i cs @ drop (Suc i) cs)))"
      by (simp add: scanned_def)
    moreover from that have "status (fst (hunt w)) = 200"
      by (simp add: hunt_after_harvest [of w a b c])
    ultimately show ?thesis by simp
  qed
  from chunks lens cat empty merged pipeline show ?thesis
    by blast
qed

theorem batches_of_65_witness:
  "length addrs65 = 65 \<and> (1::nat) < 3 \<and>
   lookup65 (join '','' ([take 30 addrs65, take 30 (drop 30 addrs65), drop 60 addrs65] ! 1)) =
     Rejected ''timeout'' \<and>
   chunkArray addrs65 30 = Inr [take 30 addrs65, take 30 (drop 30 addrs65), drop 60 addrs65] \<and>
   resolvedTokens lookup65 [take 30 addrs65, take 30 (drop 30 addrs65), drop 60 addrs65] =
     fetch_batch lookup65 (take 30 addrs65) @ fetch_batch lookup65 (drop 60 addrs65) \<and>
   length (fetch_batch lookup65 (take 30 addrs65)) = 1 \<and>
   length (fetch_batch lookup65 (drop 60 addrs65)) = 1 \<and>
   length (scanned world65 (map (raw_at ''solana'') addrs65) [] []) = 2 \<and>
   status (fst (hunt world65)) = 200"
proof -
  let ?cs = "[take 30 addrs65, take 30 (drop 30 addrs65), drop 60 addrs65]"
  have len: "length addrs65 = 65" by (simp add: addrs65_def)
  have i: "(1::nat) < 3" by simp
  have r: "lookup65 (join '','' (?cs ! 1)) = Rejected ''timeout''"
    by (simp add: lookup65_def)
  have h: "profilesRes world65 = Fulfilled (map (raw_at ''solana'') addrs65) \<and>
           boostsRes world65 = Fulfilled [] \<and> topRes world65 = Fulfilled [] \<and>
           tokens_api world65 = lookup65"
    by (simp add: world65_def)
  have u: "uniqueAddresses (allRaw_of (map (raw_at ''solana'') addrs65) [] []) = addrs65"
    by code_simp
  have a: "length (fetch_batch lookup65 (take 30 addrs65)) = 1"
    by code_simp
  have b: "length (fetch_batch lookup65 (drop 60 addrs65)) = 1"
    by code_simp
  have d: "baseToken_address (hd (fetch_batch lookup65 (take 30 addrs65))) \<noteq>
           baseToken_address (hd (fetch_batch lookup65 (drop 60 addrs65)))"
    by code_simp
  from batches_of_65 [of addrs65 ?cs 1 lookup65 "''timeout''", OF len refl i r] h u
  have t: "chunkArray addrs65 30 = Inr ?cs"
    and m: "resolvedTokens lookup65 ?cs =
            concat (map (fetch_batch lookup65) (take 1 ?cs @ drop (Suc 1) ?cs))"
    and s: "scanned world65 (map (raw_at ''solana'') addrs65) [] [] =
            finalTokenList (allRaw_of (map (raw_at ''solana'') addrs65) [] [])
              (concat (map (fetch_batch lookup65) (take 1 ?cs @ drop (Suc 1) ?cs)))"
    and st: "status (fst (hunt world65)) = 200"
    by blast+
  have n: "length (scanned world65 (map (raw_at ''solana'') addrs65) [] []) = 2"
  proof -
    obtain p where p: "fetch_batch lookup65 (take 30 addrs65) = [p]"
      using a by (cases "fetch_batch lookup65 (take 30 addrs65)") auto
    obtain q where q: "fetch_batch lookup65 (drop 60 addrs65) = [q]"
      using b by (cases "fetch_batch lookup65 (drop 60 addrs65)") auto
    from d p q have "baseToken_address p \<noteq> baseToken_address q" by simp
    then show ?thesis
      by (simp add: s p q finalTokenList_def uniqueTokensMap_def dedup_step_eq)
  qed
  from len i r t m a b n st show ?thesis by simp
qed

text \<open>
  C9: when one of the three harvest calls rejects, the answer is the failure envelope
  with the fixed message and status 500, whatever the other two calls returned, and no
  enrichment lookup or collaborator call is issued.
\<close>

theorem harvest_failure_is_fatal:
  assumes "profilesRes w = Rejected e \<or> boostsRes w = Rejected e \<or> topRes w = Rejected e"
  shows "hunt w = (\<lparr> status = 500, body = Failure ''Massive Scan Failed.'' \<rparr>, [])"
  using assms by (auto simp: hunt_def scan_failed_def split: promise.splits)

theorem harvest_failure_is_fatal_witness:
  "boostsRes world_boosts_down = Rejected ''Request failed with status code 503'' \<and>
   hunt world_boosts_down = (\<lparr> status = 500, body = Failure ''Massive Scan Failed.'' \<rparr>, [])"
proof -
  have h: "boostsRes world_boosts_down = Rejected ''Request failed with status code 503''"
    by (simp add: world_boosts_down_def)
  then have "profilesRes world_boosts_down = Rejected ''Request failed with status code 503'' \<or>
             boostsRes world_boosts_down = Rejected ''Request failed with status code 503'' \<or>
             topRes world_boosts_down = Rejected ''Request failed with status code 503''"
    by simp
  from harvest_failure_is_fatal [OF this] h show ?thesis by simp
qed

end
